theory Spec2Isabelle
  imports Main
begin

section \<open>The Sphinx configuration module \<open>docs/source/conf.py\<close>\<close>

subsection \<open>Python values\<close>

text \<open>
  The right-hand sides of the module are literal displays only: strings, one integer,
  booleans, lists of strings and two dictionaries with string keys. A dictionary value
  keeps its items in the order of the display; a module object is known by its name.
\<close>

datatype pyval =
    VStr string
  | VInt int
  | VBool bool
  | VList "pyval list"
  | VDict "(pyval \<times> pyval) list"
  | VModule string

text \<open>
  Subscription \<open>d[k]\<close>. In a dictionary display a later item with the same key replaces an
  earlier one, so the items are searched from the last one. \<open>None\<close> stands for the
  \<open>KeyError\<close> of a missing key and the \<open>TypeError\<close> of a value that is not a dictionary.
\<close>

fun item :: "pyval \<Rightarrow> pyval \<Rightarrow> pyval option" where
  "item (VDict kvs) k = map_of (rev kvs) k"
| "item _ k = None"

subsection \<open>Statements and their execution\<close>

text \<open>
  The module has two kinds of statement: the assignment of a literal to a global name,
  and \<open>import m\<close>, which asks the interpreter for the module \<open>m\<close> and binds it to the
  name \<open>m\<close>. The import is the only statement that reaches outside the file: what it
  returns or raises is decided by the interpreter's environment, which is a parameter.
\<close>

datatype exn =
    ModuleNotFoundError string
  | Raised string

datatype stmt =
    Assign string pyval
  | Import string

type_synonym namespace = "string \<rightharpoonup> pyval"

type_synonym importer = "string \<Rightarrow> exn + pyval"

fun exec_stmt :: "importer \<Rightarrow> stmt \<Rightarrow> namespace \<Rightarrow> exn + namespace" where
  "exec_stmt imp (Assign x v) ns = Inr (ns(x \<mapsto> v))"
| "exec_stmt imp (Import m) ns =
     (case imp m of Inl e \<Rightarrow> Inl e | Inr mv \<Rightarrow> Inr (ns(m \<mapsto> mv)))"

fun exec_stmts :: "importer \<Rightarrow> stmt list \<Rightarrow> namespace \<Rightarrow> exn + namespace" where
  "exec_stmts imp [] ns = Inr ns"
| "exec_stmts imp (s # ss) ns =
     (case exec_stmt imp s ns of Inl e \<Rightarrow> Inl e | Inr ns' \<Rightarrow> exec_stmts imp ss ns')"

subsection \<open>The module\<close>

definition html_theme_options :: pyval where
  "html_theme_options = VDict
     [(VStr ''navigation_depth'', VInt 5),
      (VStr ''collapse_navigation'', VBool False),
      (VStr ''sticky_navigation'', VBool True),
      (VStr ''includehidden'', VBool True),
      (VStr ''titles_only'', VBool False),
      (VStr ''style_nav_header_background'', VStr ''#2980B9'')]"

definition html_context :: pyval where
  "html_context = VDict
     [(VStr ''display_github'', VBool True),
      (VStr ''github_user'', VStr ''cmelnu''),
      (VStr ''github_repo'', VStr ''compi''),
      (VStr ''github_version'', VStr ''main''),
      (VStr ''conf_py_path'', VStr ''/docs/source/'')]"

definition conf_py :: "stmt list" where
  "conf_py =
     [Assign ''project'' (VStr ''compi''),
      Assign ''copyright'' (VStr ''2025, cmelnu''),
      Assign ''author'' (VStr ''cmelnu''),
      Assign ''extensions'' (VList []),
      Assign ''templates_path'' (VList [VStr ''_templates'']),
      Assign ''exclude_patterns'' (VList []),
      Import ''sphinx_rtd_theme'',
      Assign ''html_theme'' (VStr ''sphinx_rtd_theme''),
      Assign ''html_theme_options'' html_theme_options,
      Assign ''html_static_path'' (VList [VStr ''_static'']),
      Assign ''html_css_files'' (VList [VStr ''custom.css'']),
      Assign ''html_context'' html_context,
      Assign ''pygments_style'' (VStr ''monokai'')]"

text \<open>Loading the file runs its body in a fresh namespace.\<close>

definition load :: "importer \<Rightarrow> exn + namespace" where
  "load imp = exec_stmts imp conf_py Map.empty"

text \<open>Two environments: one where the theme package is installed, one where nothing is.\<close>

definition theme_installed :: importer where
  "theme_installed m =
     (if m = ''sphinx_rtd_theme'' then Inr (VModule m) else Inl (ModuleNotFoundError m))"

definition nothing_installed :: importer where
  "nothing_installed m = Inl (ModuleNotFoundError m)"

text \<open>The namespace that the body leaves when its import returns the module object \<open>mv\<close>.\<close>

definition settings :: "pyval \<Rightarrow> namespace \<Rightarrow> namespace" where
  "settings mv ns = ns
     (''project'' \<mapsto> VStr ''compi'',
      ''copyright'' \<mapsto> VStr ''2025, cmelnu'',
      ''author'' \<mapsto> VStr ''cmelnu'',
      ''extensions'' \<mapsto> VList [],
      ''templates_path'' \<mapsto> VList [VStr ''_templates''],
      ''exclude_patterns'' \<mapsto> VList [],
      ''sphinx_rtd_theme'' \<mapsto> mv,
      ''html_theme'' \<mapsto> VStr ''sphinx_rtd_theme'',
      ''html_theme_options'' \<mapsto> html_theme_options,
      ''html_static_path'' \<mapsto> VList [VStr ''_static''],
      ''html_css_files'' \<mapsto> VList [VStr ''custom.css''],
      ''html_context'' \<mapsto> html_context,
      ''pygments_style'' \<mapsto> VStr ''monokai'')"

subsection \<open>The keys the documentation tool reads, and their types\<close>

text \<open>
  The documentation tool looks up twelve names in the loaded namespace. Each has a type:
  a string, a list of strings, or a dictionary with string keys whose values are
  booleans, strings or integers (theme options) or booleans or strings (template context).
  The entries of the two dictionaries have types of their own.
\<close>

definition recognized_keys :: "string list" where
  "recognized_keys =
     [''project'', ''copyright'', ''author'', ''extensions'', ''templates_path'',
      ''exclude_patterns'', ''html_theme'', ''html_theme_options'', ''html_static_path'',
      ''html_css_files'', ''html_context'', ''pygments_style'']"

datatype scalar_ty = TBool | TInt | TStr

datatype ty = TString | TStringList | TMapping "scalar_ty list" "(string \<times> scalar_ty) list"

fun has_scalar_ty :: "scalar_ty \<Rightarrow> pyval \<Rightarrow> bool" where
  "has_scalar_ty TBool (VBool b) = True"
| "has_scalar_ty TInt (VInt n) = True"
| "has_scalar_ty TStr (VStr s) = True"
| "has_scalar_ty _ _ = False"

fun is_str :: "pyval \<Rightarrow> bool" where
  "is_str (VStr s) = True"
| "is_str _ = False"

fun entry_ok :: "scalar_ty list \<Rightarrow> (string \<times> scalar_ty) list \<Rightarrow> pyval \<times> pyval \<Rightarrow> bool" where
  "entry_ok allowed tbl (VStr k, v) =
     (list_ex (\<lambda>t. has_scalar_ty t v) allowed \<and>
      (case map_of tbl k of None \<Rightarrow> True | Some t \<Rightarrow> has_scalar_ty t v))"
| "entry_ok allowed tbl (_, v) = False"

fun has_type :: "ty \<Rightarrow> pyval \<Rightarrow> bool" where
  "has_type TString v = is_str v"
| "has_type TStringList (VList xs) = list_all is_str xs"
| "has_type TStringList _ = False"
| "has_type (TMapping allowed tbl) (VDict kvs) = list_all (entry_ok allowed tbl) kvs"
| "has_type (TMapping allowed tbl) _ = False"

definition theme_option_types :: "(string \<times> scalar_ty) list" where
  "theme_option_types =
     [(''navigation_depth'', TInt),
      (''collapse_navigation'', TBool),
      (''sticky_navigation'', TBool),
      (''includehidden'', TBool),
      (''titles_only'', TBool),
      (''style_nav_header_background'', TStr)]"

definition context_types :: "(string \<times> scalar_ty) list" where
  "context_types =
     [(''display_github'', TBool),
      (''github_user'', TStr),
      (''github_repo'', TStr),
      (''github_version'', TStr),
      (''conf_py_path'', TStr)]"

definition key_types :: "(string \<times> ty) list" where
  "key_types =
     [(''project'', TString),
      (''copyright'', TString),
      (''author'', TString),
      (''extensions'', TStringList),
      (''templates_path'', TStringList),
      (''exclude_patterns'', TStringList),
      (''html_theme'', TString),
      (''html_theme_options'', TMapping [TBool, TStr, TInt] theme_option_types),
      (''html_static_path'', TStringList),
      (''html_css_files'', TStringList),
      (''html_context'', TMapping [TBool, TStr] context_types),
      (''pygments_style'', TString)]"

definition conforms :: "string \<Rightarrow> pyval \<Rightarrow> bool" where
  "conforms k v = (case map_of key_types k of None \<Rightarrow> False | Some t \<Rightarrow> has_type t v)"

subsection \<open>Properties of single values\<close>

fun nonempty_str :: "pyval option \<Rightarrow> bool" where
  "nonempty_str (Some (VStr s)) = (s \<noteq> [])"
| "nonempty_str _ = False"

definition github_link_ok :: "pyval \<Rightarrow> bool" where
  "github_link_ok ctx =
     (item ctx (VStr ''display_github'') = Some (VBool True) \<longrightarrow>
        nonempty_str (item ctx (VStr ''github_user'')) \<and>
        nonempty_str (item ctx (VStr ''github_repo'')) \<and>
        nonempty_str (item ctx (VStr ''github_version'')))"

definition is_hexdigit :: "char \<Rightarrow> bool" where
  "is_hexdigit c = (c \<in> set ''0123456789abcdefABCDEF'')"

fun is_hex_color :: "string \<Rightarrow> bool" where
  "is_hex_color [] = False"
| "is_hex_color (c # cs) = (c = CHR ''#'' \<and> length cs = 6 \<and> list_all is_hexdigit cs)"

definition startswith_slash :: "string \<Rightarrow> bool" where
  "startswith_slash s = (s \<noteq> [] \<and> hd s = CHR ''/'')"

definition endswith_slash :: "string \<Rightarrow> bool" where
  "endswith_slash s = (s \<noteq> [] \<and> last s = CHR ''/'')"

subsection \<open>Names bound by the body\<close>

fun target :: "stmt \<Rightarrow> string" where
  "target (Assign x v) = x"
| "target (Import m) = m"

text \<open>
  A literal value: a string, an integer, a boolean, or a list or dictionary display whose
  members are literal values. A module object is not one.
\<close>

fun is_literal :: "pyval \<Rightarrow> bool" where
  "is_literal (VStr s) = True"
| "is_literal (VInt n) = True"
| "is_literal (VBool b) = True"
| "is_literal (VList xs) = (\<forall>x\<in>set xs. is_literal x)"
| "is_literal (VDict kvs) = (\<forall>p\<in>set kvs. is_literal (fst p) \<and> is_literal (snd p))"
| "is_literal (VModule m) = False"

fun literal_assign :: "stmt \<Rightarrow> bool" where
  "literal_assign (Assign x v) = is_literal v"
| "literal_assign (Import m) = False"

subsection \<open>Running the body\<close>

lemma exec_conf_py:
  "exec_stmts imp conf_py ns =
     (case imp ''sphinx_rtd_theme'' of Inl e \<Rightarrow> Inl e | Inr mv \<Rightarrow> Inr (settings mv ns))"
  by (simp add: conf_py_def settings_def split: sum.split)

lemma load_Inr:
  "load imp = Inr ns \<Longrightarrow> \<exists>mv. imp ''sphinx_rtd_theme'' = Inr mv \<and> ns = settings mv Map.empty"
  by (simp add: load_def exec_conf_py split: sum.splits)

lemma load_theme_installed:
  "load theme_installed = Inr (settings (VModule ''sphinx_rtd_theme'') Map.empty)"
  by (simp add: load_def exec_conf_py theme_installed_def)

lemma settings_lookup:
  "settings mv ns ''project'' = Some (VStr ''compi'')"
  "settings mv ns ''copyright'' = Some (VStr ''2025, cmelnu'')"
  "settings mv ns ''author'' = Some (VStr ''cmelnu'')"
  "settings mv ns ''extensions'' = Some (VList [])"
  "settings mv ns ''templates_path'' = Some (VList [VStr ''_templates''])"
  "settings mv ns ''exclude_patterns'' = Some (VList [])"
  "settings mv ns ''sphinx_rtd_theme'' = Some mv"
  "settings mv ns ''html_theme'' = Some (VStr ''sphinx_rtd_theme'')"
  "settings mv ns ''html_theme_options'' = Some html_theme_options"
  "settings mv ns ''html_static_path'' = Some (VList [VStr ''_static''])"
  "settings mv ns ''html_css_files'' = Some (VList [VStr ''custom.css''])"
  "settings mv ns ''html_context'' = Some html_context"
  "settings mv ns ''pygments_style'' = Some (VStr ''monokai'')"
  by (simp_all add: settings_def)

lemma conforms_literals:
  "conforms ''project'' (VStr ''compi'')"
  "conforms ''copyright'' (VStr ''2025, cmelnu'')"
  "conforms ''author'' (VStr ''cmelnu'')"
  "conforms ''extensions'' (VList [])"
  "conforms ''templates_path'' (VList [VStr ''_templates''])"
  "conforms ''exclude_patterns'' (VList [])"
  "conforms ''html_theme'' (VStr ''sphinx_rtd_theme'')"
  "conforms ''html_static_path'' (VList [VStr ''_static''])"
  "conforms ''html_css_files'' (VList [VStr ''custom.css''])"
  "conforms ''pygments_style'' (VStr ''monokai'')"
  by (simp_all add: conforms_def key_types_def)

lemma conforms_html_theme_options: "conforms ''html_theme_options'' html_theme_options"
  by (simp add: conforms_def key_types_def html_theme_options_def theme_option_types_def)

lemma conforms_html_context: "conforms ''html_context'' html_context"
  by (simp add: conforms_def key_types_def html_context_def context_types_def)

lemma settings_conforms:
  "k \<in> set recognized_keys \<Longrightarrow> settings mv ns k = Some v \<Longrightarrow> conforms k v"
  unfolding recognized_keys_def
  by (auto simp add: settings_lookup conforms_literals conforms_html_theme_options
        conforms_html_context)

lemma settings_recognized:
  "k \<in> set recognized_keys \<Longrightarrow> settings mv ns k = settings mv' ns' k \<and> settings mv ns k \<noteq> None"
  unfolding recognized_keys_def by (auto simp add: settings_lookup)

lemma literal_html_theme_options: "is_literal html_theme_options"
  by (simp add: html_theme_options_def)

lemma literal_html_context: "is_literal html_context"
  by (simp add: html_context_def)

section \<open>The claims\<close>

text \<open>
  C1. In the loaded configuration, if \<open>html_context['display_github']\<close> is true, then
  \<open>html_context['github_user']\<close>, \<open>html_context['github_repo']\<close> and
  \<open>html_context['github_version']\<close> are all non-empty strings.
\<close>

theorem display_github_fields_nonempty:
  assumes "load imp = Inr ns"
  shows "\<exists>ctx. ns ''html_context'' = Some ctx \<and> github_link_ok ctx"
proof -
  from load_Inr [OF assms] obtain mv where ns: "ns = settings mv Map.empty" by blast
  have "github_link_ok html_context"
    by (simp add: github_link_ok_def html_context_def)
  then show ?thesis by (simp add: ns settings_lookup)
qed

theorem display_github_fields_nonempty_witness:
  "load theme_installed = Inr (settings (VModule ''sphinx_rtd_theme'') Map.empty) \<and>
   settings (VModule ''sphinx_rtd_theme'') Map.empty ''html_context'' = Some html_context \<and>
   item html_context (VStr ''display_github'') = Some (VBool True) \<and>
   nonempty_str (item html_context (VStr ''github_user'')) \<and>
   nonempty_str (item html_context (VStr ''github_repo'')) \<and>
   nonempty_str (item html_context (VStr ''github_version''))"
proof -
  have d: "item html_context (VStr ''display_github'') = Some (VBool True)"
    by (simp add: html_context_def)
  from display_github_fields_nonempty [OF load_theme_installed]
  have "github_link_ok html_context" by (simp add: settings_lookup)
  with d show ?thesis
    by (simp add: github_link_ok_def load_theme_installed settings_lookup)
qed

text \<open>
  C2. Every recognized configuration key is bound after a load, and its value has the
  type of the table: \<open>project\<close>, \<open>copyright\<close>, \<open>author\<close>, \<open>html_theme\<close> and
  \<open>pygments_style\<close> are strings; \<open>extensions\<close>, \<open>templates_path\<close>,
  \<open>exclude_patterns\<close>, \<open>html_static_path\<close> and \<open>html_css_files\<close> are lists of strings;
  \<open>html_theme_options\<close> maps strings to booleans, strings or integers and
  \<open>html_context\<close> maps strings to booleans or strings, each named entry with the type the
  table gives it.
\<close>

theorem recognized_keys_conform:
  assumes "load imp = Inr ns"
  shows "\<forall>k\<in>set recognized_keys. \<exists>v. ns k = Some v \<and> conforms k v"
proof
  fix k assume k: "k \<in> set recognized_keys"
  from load_Inr [OF assms] obtain mv where ns: "ns = settings mv Map.empty" by blast
  from settings_recognized [OF k, of mv Map.empty] obtain v where v: "ns k = Some v"
    unfolding ns by blast
  then have "conforms k v" using settings_conforms [OF k] unfolding ns by blast
  with v show "\<exists>v. ns k = Some v \<and> conforms k v" by blast
qed

theorem recognized_keys_conform_witness:
  "load theme_installed = Inr (settings (VModule ''sphinx_rtd_theme'') Map.empty) \<and>
   ''extensions'' \<in> set recognized_keys \<and>
   settings (VModule ''sphinx_rtd_theme'') Map.empty ''extensions'' = Some (VList []) \<and>
   conforms ''extensions'' (VList [])"
proof -
  have k: "''extensions'' \<in> set recognized_keys" by (simp add: recognized_keys_def)
  from recognized_keys_conform [OF load_theme_installed] k
  have "\<exists>v. settings (VModule ''sphinx_rtd_theme'') Map.empty ''extensions'' = Some v \<and>
          conforms ''extensions'' v" by blast
  then have "conforms ''extensions'' (VList [])" by (simp add: settings_lookup)
  with k show ?thesis by (simp add: load_theme_installed settings_lookup)
qed

text \<open>
  C3. The value of \<open>html_theme_options['navigation_depth']\<close> is a positive integer, and
  it is exactly 5.
\<close>

theorem navigation_depth_positive_five:
  assumes "load imp = Inr ns"
  shows "\<exists>opts n. ns ''html_theme_options'' = Some opts \<and>
           item opts (VStr ''navigation_depth'') = Some (VInt n) \<and> 0 < n \<and> n = 5"
proof -
  from load_Inr [OF assms] obtain mv where ns: "ns = settings mv Map.empty" by blast
  have "item html_theme_options (VStr ''navigation_depth'') = Some (VInt 5)"
    by (simp add: html_theme_options_def)
  then show ?thesis by (simp add: ns settings_lookup)
qed

theorem navigation_depth_positive_five_witness:
  "load theme_installed = Inr (settings (VModule ''sphinx_rtd_theme'') Map.empty) \<and>
   item html_theme_options (VStr ''navigation_depth'') = Some (VInt 5)"
  using navigation_depth_positive_five [OF load_theme_installed]
  by (simp add: load_theme_installed settings_lookup)

text \<open>
  C4, as amended. The body of the file is exactly thirteen statements: twelve assignments
  of literal values, one to each recognized key, and the one statement
  \<open>import sphinx_rtd_theme\<close>; there is no other statement, so no branching and no other
  computation. That import is the only error path of the file: a load raises exactly
  what the import raises, and when the import returns a module the load succeeds and
  binds every recognized key.
\<close>

theorem only_the_import_can_fail:
  "map target (filter literal_assign conf_py) = recognized_keys \<and>
   filter (\<lambda>s. \<not> literal_assign s) conf_py = [Import ''sphinx_rtd_theme''] \<and>
   length conf_py = 13 \<and> length recognized_keys = 12 \<and> distinct recognized_keys \<and>
   (\<forall>e. load imp = Inl e \<longleftrightarrow> imp ''sphinx_rtd_theme'' = Inl e) \<and>
   (\<forall>mv. imp ''sphinx_rtd_theme'' = Inr mv \<longrightarrow>
      (\<exists>ns. load imp = Inr ns \<and> (\<forall>k\<in>set recognized_keys. ns k \<noteq> None)))"
proof (intro conjI allI impI)
  show "map target (filter literal_assign conf_py) = recognized_keys"
    by (simp add: conf_py_def recognized_keys_def literal_html_theme_options
          literal_html_context)
next
  show "filter (\<lambda>s. \<not> literal_assign s) conf_py = [Import ''sphinx_rtd_theme'']"
    by (simp add: conf_py_def literal_html_theme_options literal_html_context)
next
  show "length conf_py = 13" by (simp add: conf_py_def)
next
  show "length recognized_keys = 12" by (simp add: recognized_keys_def)
next
  show "distinct recognized_keys" by (simp add: recognized_keys_def)
next
  fix e show "load imp = Inl e \<longleftrightarrow> imp ''sphinx_rtd_theme'' = Inl e"
    by (simp add: load_def exec_conf_py split: sum.split)
next
  fix mv assume mv: "imp ''sphinx_rtd_theme'' = Inr mv"
  then have "load imp = Inr (settings mv Map.empty)" by (simp add: load_def exec_conf_py)
  moreover have "\<forall>k\<in>set recognized_keys. settings mv Map.empty k \<noteq> None"
    using settings_recognized [of _ mv Map.empty] by blast
  ultimately show "\<exists>ns. load imp = Inr ns \<and> (\<forall>k\<in>set recognized_keys. ns k \<noteq> None)"
    by blast
qed

theorem only_the_import_can_fail_witness:
  "map target (filter literal_assign conf_py) = recognized_keys \<and>
   filter (\<lambda>s. \<not> literal_assign s) conf_py = [Import ''sphinx_rtd_theme''] \<and>
   theme_installed ''sphinx_rtd_theme'' = Inr (VModule ''sphinx_rtd_theme'') \<and>
   load theme_installed = Inr (settings (VModule ''sphinx_rtd_theme'') Map.empty) \<and>
   ''pygments_style'' \<in> set recognized_keys \<and>
   settings (VModule ''sphinx_rtd_theme'') Map.empty ''pygments_style'' \<noteq> None \<and>
   nothing_installed ''sphinx_rtd_theme'' = Inl (ModuleNotFoundError ''sphinx_rtd_theme'') \<and>
   load nothing_installed = Inl (ModuleNotFoundError ''sphinx_rtd_theme'')"
proof -
  have i: "theme_installed ''sphinx_rtd_theme'' = Inr (VModule ''sphinx_rtd_theme'')"
    by (simp add: theme_installed_def)
  have n: "nothing_installed ''sphinx_rtd_theme'' = Inl (ModuleNotFoundError ''sphinx_rtd_theme'')"
    by (simp add: nothing_installed_def)
  have k: "''pygments_style'' \<in> set recognized_keys" by (simp add: recognized_keys_def)
  from only_the_import_can_fail [of theme_installed] i
  obtain ns where l: "load theme_installed = Inr ns"
    and b: "\<forall>k\<in>set recognized_keys. ns k \<noteq> None" by blast
  from l have ns: "ns = settings (VModule ''sphinx_rtd_theme'') Map.empty"
    by (simp add: load_theme_installed)
  from only_the_import_can_fail [of nothing_installed] n
  have f: "load nothing_installed = Inl (ModuleNotFoundError ''sphinx_rtd_theme'')" by blast
  from b k have "ns ''pygments_style'' \<noteq> None" by blast
  moreover from only_the_import_can_fail [of theme_installed]
  have "map target (filter literal_assign conf_py) = recognized_keys"
    and "filter (\<lambda>s. \<not> literal_assign s) conf_py = [Import ''sphinx_rtd_theme'']"
    by blast+
  ultimately show ?thesis using i n k l f unfolding ns by blast
qed

text \<open>
  C4, as stated, fails: where the theme package is not installed the import statement of
  the file raises \<open>ModuleNotFoundError\<close>, so the file itself raises and no value is
  provided.
\<close>

theorem load_raises_without_theme:
  "load nothing_installed = Inl (ModuleNotFoundError ''sphinx_rtd_theme'')"
  by (simp add: load_def exec_conf_py nothing_installed_def)

text \<open>
  C6. Loading the same declarations twice gives the same value for every field: whatever
  the environment of the second load, and whether it runs in a fresh namespace or in the
  one the first load left, each recognized key is bound to the value it had after the
  first load.
\<close>

theorem reload_yields_same_fields:
  assumes "load imp1 = Inr ns1" and "exec_stmts imp2 conf_py ns0 = Inr ns2"
  shows "\<forall>k\<in>set recognized_keys. ns2 k = ns1 k \<and> ns1 k \<noteq> None"
proof
  fix k assume k: "k \<in> set recognized_keys"
  from load_Inr [OF assms(1)] obtain mv1 where ns1: "ns1 = settings mv1 Map.empty" by blast
  from assms(2) obtain mv2 where ns2: "ns2 = settings mv2 ns0"
    by (auto simp add: exec_conf_py split: sum.splits)
  from settings_recognized [OF k, of mv2 ns0 mv1 Map.empty]
       settings_recognized [OF k, of mv1 Map.empty mv1 Map.empty]
  show "ns2 k = ns1 k \<and> ns1 k \<noteq> None" unfolding ns1 ns2 by blast
qed

theorem reload_yields_same_fields_witness:
  "load theme_installed = Inr (settings (VModule ''sphinx_rtd_theme'') Map.empty) \<and>
   exec_stmts theme_installed conf_py (settings (VModule ''sphinx_rtd_theme'') Map.empty) =
     Inr (settings (VModule ''sphinx_rtd_theme'')
            (settings (VModule ''sphinx_rtd_theme'') Map.empty)) \<and>
   ''html_context'' \<in> set recognized_keys \<and>
   settings (VModule ''sphinx_rtd_theme'')
     (settings (VModule ''sphinx_rtd_theme'') Map.empty) ''html_context'' =
   settings (VModule ''sphinx_rtd_theme'') Map.empty ''html_context'' \<and>
   settings (VModule ''sphinx_rtd_theme'') Map.empty ''html_context'' \<noteq> None"
proof -
  let ?S = "settings (VModule ''sphinx_rtd_theme'') Map.empty"
  have r: "exec_stmts theme_installed conf_py ?S = Inr (settings (VModule ''sphinx_rtd_theme'') ?S)"
    by (simp add: exec_conf_py theme_installed_def)
  have k: "''html_context'' \<in> set recognized_keys" by (simp add: recognized_keys_def)
  from reload_yields_same_fields [OF load_theme_installed r] k
  have "settings (VModule ''sphinx_rtd_theme'') ?S ''html_context'' = ?S ''html_context'' \<and>
        ?S ''html_context'' \<noteq> None" by blast
  with r k show ?thesis by (simp add: load_theme_installed)
qed

text \<open>
  C7. The configuration provides the values of the example scenario: \<open>project\<close> is
  \<open>'compi'\<close>, \<open>author\<close> is \<open>'cmelnu'\<close>, \<open>html_theme\<close> is \<open>'sphinx_rtd_theme'\<close>, and
  the navigation depth of the theme is 5.
\<close>

theorem example_scenario_values:
  assumes "load imp = Inr ns"
  shows "ns ''project'' = Some (VStr ''compi'') \<and>
         ns ''author'' = Some (VStr ''cmelnu'') \<and>
         ns ''html_theme'' = Some (VStr ''sphinx_rtd_theme'') \<and>
         (\<exists>opts. ns ''html_theme_options'' = Some opts \<and>
            item opts (VStr ''navigation_depth'') = Some (VInt 5))"
proof -
  from load_Inr [OF assms] obtain mv where ns: "ns = settings mv Map.empty" by blast
  have "item html_theme_options (VStr ''navigation_depth'') = Some (VInt 5)"
    by (simp add: html_theme_options_def)
  then show ?thesis by (simp add: ns settings_lookup)
qed

theorem example_scenario_values_witness:
  "load theme_installed = Inr (settings (VModule ''sphinx_rtd_theme'') Map.empty) \<and>
   settings (VModule ''sphinx_rtd_theme'') Map.empty ''project'' = Some (VStr ''compi'') \<and>
   settings (VModule ''sphinx_rtd_theme'') Map.empty ''author'' = Some (VStr ''cmelnu'') \<and>
   settings (VModule ''sphinx_rtd_theme'') Map.empty ''html_theme'' =
     Some (VStr ''sphinx_rtd_theme'')"
  using example_scenario_values [OF load_theme_installed]
  by (simp add: load_theme_installed)

text \<open>
  C8. In this configuration \<open>extensions\<close> and \<open>exclude_patterns\<close> are both the empty
  list.
\<close>

theorem extensions_and_exclude_patterns_empty:
  assumes "load imp = Inr ns"
  shows "ns ''extensions'' = Some (VList []) \<and> ns ''exclude_patterns'' = Some (VList [])"
proof -
  from load_Inr [OF assms] obtain mv where ns: "ns = settings mv Map.empty" by blast
  show ?thesis by (simp add: ns settings_lookup)
qed

theorem extensions_and_exclude_patterns_empty_witness:
  "load theme_installed = Inr (settings (VModule ''sphinx_rtd_theme'') Map.empty) \<and>
   settings (VModule ''sphinx_rtd_theme'') Map.empty ''extensions'' = Some (VList []) \<and>
   settings (VModule ''sphinx_rtd_theme'') Map.empty ''exclude_patterns'' = Some (VList [])"
  using extensions_and_exclude_patterns_empty [OF load_theme_installed]
  by (simp add: load_theme_installed)

text \<open>
  C9. The value of \<open>html_theme_options['style_nav_header_background']\<close> is the string
  \<open>'#2980B9'\<close>, a well-formed CSS hex colour: the character \<open>#\<close> followed by exactly six
  hexadecimal digits.
\<close>

theorem header_background_is_hex_color:
  assumes "load imp = Inr ns"
  shows "\<exists>opts s. ns ''html_theme_options'' = Some opts \<and>
           item opts (VStr ''style_nav_header_background'') = Some (VStr s) \<and>
           s = ''#2980B9'' \<and> is_hex_color s"
proof -
  from load_Inr [OF assms] obtain mv where ns: "ns = settings mv Map.empty" by blast
  have "item html_theme_options (VStr ''style_nav_header_background'') = Some (VStr ''#2980B9'')"
    by (simp add: html_theme_options_def)
  moreover have "is_hex_color ''#2980B9''" by (simp add: is_hexdigit_def)
  ultimately show ?thesis by (simp add: ns settings_lookup)
qed

theorem header_background_is_hex_color_witness:
  "load theme_installed = Inr (settings (VModule ''sphinx_rtd_theme'') Map.empty) \<and>
   item html_theme_options (VStr ''style_nav_header_background'') = Some (VStr ''#2980B9'') \<and>
   is_hex_color ''#2980B9''"
  using header_background_is_hex_color [OF load_theme_installed]
  by (simp add: load_theme_installed settings_lookup)

text \<open>
  C10. The value of \<open>html_context['conf_py_path']\<close> is the string \<open>'/docs/source/'\<close>,
  which begins and ends with the character \<open>/\<close>.
\<close>

theorem conf_py_path_slashes:
  assumes "load imp = Inr ns"
  shows "\<exists>ctx s. ns ''html_context'' = Some ctx \<and>
           item ctx (VStr ''conf_py_path'') = Some (VStr s) \<and>
           s = ''/docs/source/'' \<and> startswith_slash s \<and> endswith_slash s"
proof -
  from load_Inr [OF assms] obtain mv where ns: "ns = settings mv Map.empty" by blast
  have "item html_context (VStr ''conf_py_path'') = Some (VStr ''/docs/source/'')"
    by (simp add: html_context_def)
  moreover have "startswith_slash ''/docs/source/''" by (simp add: startswith_slash_def)
  moreover have "endswith_slash ''/docs/source/''" by (simp add: endswith_slash_def)
  ultimately show ?thesis by (simp add: ns settings_lookup)
qed

theorem conf_py_path_slashes_witness:
  "load theme_installed = Inr (settings (VModule ''sphinx_rtd_theme'') Map.empty) \<and>
   item html_context (VStr ''conf_py_path'') = Some (VStr ''/docs/source/'') \<and>
   startswith_slash ''/docs/source/'' \<and> endswith_slash ''/docs/source/''"
  using conf_py_path_slashes [OF load_theme_installed]
  by (simp add: load_theme_installed settings_lookup)

end
